theory Spec2Isabelle
  imports Main
begin

section \<open>ResyncModal.tsx: data model\<close>

text \<open>
  The component under study is \<^verbatim>\<open>ResyncModal\<close>
  (\<^verbatim>\<open>apps/[externalID]/ResyncModal.tsx\<close>). Its state is four \<^verbatim>\<open>useState\<close>
  cells; its behaviour is the render-time derivation of \<^verbatim>\<open>url\<close> (lines 58-60), the
  asynchronous handler \<^verbatim>\<open>onSync\<close> (lines 62-102) and the attributes and callbacks
  it hands to the presentation components (lines 106-208).
\<close>

subsection \<open>Values\<close>

text \<open>A value of TypeScript type \<^verbatim>\<open>unknown\<close> (the \<^verbatim>\<open>data\<close> of a coded error).\<close>

datatype json =
    JNull
  | JBool bool
  | JNum int
  | JStr string
  | JArr "json list"
  | JObj "(string \<times> json) list"

text \<open>
  Modelled from the spec: the type \<^verbatim>\<open>CodedError\<close> is imported from \<^verbatim>\<open>@/codedError\<close>,
  which is not among the sources. The spec gives it as
  \<^verbatim>\<open>CodedError { code: string, data?: unknown, message?: string }\<close>; the GraphQL
  selection of lines 24-28 has the same three fields.
\<close>

record CodedError =
  code :: string
  data :: "json option"
  message :: "string option"

text \<open>The props of lines 33-40. \<^verbatim>\<open>onClose\<close> is a callback of the host; calling it is
  the effect \<open>OnClose\<close> below, and how the call ends is part of \<open>Callbacks\<close>.\<close>

record Props =
  appExternalID :: string
  isOpen :: bool
  url :: string
  platform :: "string option"
  appMethod :: "string option"

text \<open>The four \<^verbatim>\<open>useState\<close> cells of lines 50-53.\<close>

record State =
  overrideValue :: string
  isURLOverridden :: bool
  failure :: "CodedError option"
  isSyncing :: bool

text \<open>\<^verbatim>\<open>useEnvironment()\<close> (line 54): only \<^verbatim>\<open>env.id\<close> is read.\<close>

record Environment =
  env_id :: string

text \<open>The variables of the mutation \<^verbatim>\<open>ResyncApp\<close> (lines 19-20): \<^verbatim>\<open>$appURL: String\<close>
  is nullable, the other two are not.\<close>

record ResyncAppVariables =
  var_appExternalID :: string
  appURL :: "string option"
  envID :: string

text \<open>What the mutation's promise can deliver. \<^verbatim>\<open>res.error\<close> is urql's
  \<^verbatim>\<open>CombinedError\<close>; \<^verbatim>\<open>res.data\<close> holds the selection of lines 20-29.\<close>

datatype CombinedError = CombinedError string

record SyncResponse =
  app :: "string option"
  error :: "CodedError option"

record ResyncAppData =
  resyncApp :: SyncResponse

record OperationResult =
  res_data :: "ResyncAppData option"
  res_error :: "CombinedError option"

text \<open>A value that is thrown: line 81 throws \<^verbatim>\<open>res.error\<close>, line 84 throws a new
  \<^verbatim>\<open>Error\<close>, and the awaited promise of line 66 may reject with anything.\<close>

datatype thrown =
    ThrownCombinedError CombinedError
  | ThrownError string
  | ThrownOther json

datatype 'a settled = Fulfilled 'a | Rejected thrown

text \<open>The effects the component has on its collaborators: the mutation it issues (with
  the \<^verbatim>\<open>additionalTypenames\<close> of lines 73-77), the toast of line 93 and the host's
  \<^verbatim>\<open>onClose\<close>. An effect records that the call was made.\<close>

datatype effect =
    ResyncApp ResyncAppVariables "string list"
  | ToastSuccess string
  | OnClose

text \<open>
  \<^verbatim>\<open>toast.success\<close> (from \<^verbatim>\<open>sonner\<close>) and the prop \<^verbatim>\<open>onClose\<close> are code of others:
  a call of either returns or throws. Lines 93-94 call them inside the \<^verbatim>\<open>try\<close> block,
  so a throw of theirs reaches the \<^verbatim>\<open>catch\<close> clause.
\<close>

datatype callback = Returns | Throws thrown

record Callbacks =
  toast_behaviour :: callback
  onClose_behaviour :: callback

text \<open>The component instance together with everything it has emitted so far and the
  number of mutations it is still awaiting.\<close>

record world =
  st :: State
  effects :: "effect list"
  awaiting :: nat

text \<open>A \<^verbatim>\<open>useState\<close> setter takes a value or an updater of the previous value.\<close>

datatype 'a SetStateAction = Value 'a | Updater "'a \<Rightarrow> 'a"

fun apply_action :: "'a SetStateAction \<Rightarrow> 'a \<Rightarrow> 'a" where
  "apply_action (Value v) prev = v"
| "apply_action (Updater f) prev = f prev"

section \<open>The component\<close>

subsection \<open>State cells and their setters (lines 50-53)\<close>

definition useState_initial :: "Props \<Rightarrow> State" where
  "useState_initial p =
     \<lparr>overrideValue = url p, isURLOverridden = False, failure = None, isSyncing = False\<rparr>"

definition mount :: "Props \<Rightarrow> world" where
  "mount p = \<lparr>st = useState_initial p, effects = [], awaiting = 0\<rparr>"

definition setOverrideValue :: "string SetStateAction \<Rightarrow> world \<Rightarrow> world" where
  "setOverrideValue a w =
     w\<lparr>st := (st w)\<lparr>overrideValue := apply_action a (overrideValue (st w))\<rparr>\<rparr>"

definition setURLOverridden :: "bool SetStateAction \<Rightarrow> world \<Rightarrow> world" where
  "setURLOverridden a w =
     w\<lparr>st := (st w)\<lparr>isURLOverridden := apply_action a (isURLOverridden (st w))\<rparr>\<rparr>"

definition setFailure :: "CodedError option SetStateAction \<Rightarrow> world \<Rightarrow> world" where
  "setFailure a w = w\<lparr>st := (st w)\<lparr>failure := apply_action a (failure (st w))\<rparr>\<rparr>"

definition setIsSyncing :: "bool SetStateAction \<Rightarrow> world \<Rightarrow> world" where
  "setIsSyncing a w = w\<lparr>st := (st w)\<lparr>isSyncing := apply_action a (isSyncing (st w))\<rparr>\<rparr>"

definition emit :: "effect \<Rightarrow> world \<Rightarrow> world" where
  "emit e w = w\<lparr>effects := effects w @ [e]\<rparr>"

subsection \<open>The URL in scope (lines 58-60)\<close>

text \<open>
  \<^verbatim>\<open>if (isURLOverridden) { url = overrideValue; }\<close>: from line 61 on, the variable
  \<^verbatim>\<open>url\<close> is the prop or the override buffer. The spec calls it the effective URL.
\<close>

definition effectiveURL :: "Props \<Rightarrow> State \<Rightarrow> string" where
  "effectiveURL p s = (if isURLOverridden s then overrideValue s else url p)"

subsection \<open>onSync (lines 62-102)\<close>

text \<open>The variables object of lines 67-71.\<close>

definition onSync_variables :: "Environment \<Rightarrow> Props \<Rightarrow> State \<Rightarrow> ResyncAppVariables" where
  "onSync_variables env p s =
     \<lparr>var_appExternalID = appExternalID p,
      appURL = Some (effectiveURL p s),
      envID = env_id env\<rparr>"

text \<open>Lines 63-79, up to the \<^verbatim>\<open>await\<close>: the flag is raised, the mutation is issued
  and the handler suspends.\<close>

definition onSync_begin :: "Environment \<Rightarrow> Props \<Rightarrow> world \<Rightarrow> world" where
  "onSync_begin env p w =
     (let w1 = setIsSyncing (Value True) w;
          w2 = emit (ResyncApp (onSync_variables env p (st w)) [''Workflow'']) w1
      in w2\<lparr>awaiting := Suc (awaiting w2)\<rparr>)"

text \<open>How a block of statements ends.\<close>

datatype completion = Normal | Return | Throw thrown

text \<open>A call of a callback: the call is made, then it returns or throws.\<close>

definition call_callback :: "callback \<Rightarrow> effect \<Rightarrow> world \<Rightarrow> completion \<times> world" where
  "call_callback b e w =
     (case b of Returns \<Rightarrow> (Normal, emit e w) | Throws x \<Rightarrow> (Throw x, emit e w))"

definition toast_success :: "Callbacks \<Rightarrow> string \<Rightarrow> world \<Rightarrow> completion \<times> world" where
  "toast_success cb msg w = call_callback (toast_behaviour cb) (ToastSuccess msg) w"

definition onClose :: "Callbacks \<Rightarrow> world \<Rightarrow> completion \<times> world" where
  "onClose cb w = call_callback (onClose_behaviour cb) OnClose w"

text \<open>Statements in sequence: the next one runs only if the one before completed
  normally.\<close>

definition and_then ::
  "completion \<times> world \<Rightarrow> (world \<Rightarrow> completion \<times> world) \<Rightarrow> completion \<times> world"
where
  "and_then cw next_statement =
     (case cw of (Normal, w) \<Rightarrow> next_statement w | (c, w) \<Rightarrow> (c, w))"

text \<open>The rest of the \<^verbatim>\<open>try\<close> block (lines 66 and 80-94), from the moment the awaited
  promise settles.\<close>

definition onSync_try ::
  "Callbacks \<Rightarrow> OperationResult settled \<Rightarrow> world \<Rightarrow> completion \<times> world"
where
  "onSync_try cb r w =
     (case r of
        Rejected e \<Rightarrow> (Throw e, w)
      | Fulfilled res \<Rightarrow>
          (case res_error res of
             Some ce \<Rightarrow> (Throw (ThrownCombinedError ce), w)
           | None \<Rightarrow>
               (case res_data res of
                  None \<Rightarrow> (Throw (ThrownError ''No API response data''), w)
                | Some d \<Rightarrow>
                    (case error (resyncApp d) of
                       Some err \<Rightarrow> (Return, setFailure (Value (Some err)) w)
                     | None \<Rightarrow>
                         and_then
                           (and_then (Normal, setFailure (Value None) w)
                              (toast_success cb ''Synced app''))
                           (onClose cb)))))"

text \<open>The \<^verbatim>\<open>catch\<close> clause (lines 95-98): it runs on a throw and ignores the value.\<close>

definition onSync_catch :: "completion \<times> world \<Rightarrow> completion \<times> world" where
  "onSync_catch cw =
     (case cw of
        (Throw e, w) \<Rightarrow>
          (Normal, setFailure (Value (Some \<lparr>code = ''unknown'', data = None, message = None\<rparr>)) w)
      | (c, w) \<Rightarrow> (c, w))"

text \<open>The \<^verbatim>\<open>finally\<close> clause (lines 99-101): it runs however the rest ended.\<close>

definition onSync_finally :: "completion \<times> world \<Rightarrow> completion \<times> world" where
  "onSync_finally cw = (case cw of (c, w) \<Rightarrow> (c, setIsSyncing (Value False) w))"

text \<open>The handler from the settling of the promise to its own settling.\<close>

definition onSync_resume :: "Callbacks \<Rightarrow> OperationResult settled \<Rightarrow> world \<Rightarrow> world" where
  "onSync_resume cb r w = snd (onSync_finally (onSync_catch (onSync_try cb r w)))"

text \<open>A whole call of \<^verbatim>\<open>onSync\<close> with no other event in between; \<open>remote\<close> is the
  remote operation, giving what the promise settles with for the request made.\<close>

definition onSync ::
  "Callbacks \<Rightarrow> (ResyncAppVariables \<Rightarrow> OperationResult settled) \<Rightarrow> Environment \<Rightarrow> Props \<Rightarrow>
   world \<Rightarrow> world"
where
  "onSync cb remote env p w =
     (let w1 = onSync_begin env p w;
          r = remote (onSync_variables env p (st w))
      in onSync_resume cb r (w1\<lparr>awaiting := awaiting w1 - 1\<rparr>))"

subsection \<open>What is rendered (lines 104-208)\<close>

text \<open>Line 104. \<^verbatim>\<open>methodTypes.Connect\<close> comes from \<^verbatim>\<open>@inngest/components/types/app\<close>,
  which is not among the sources: the constant is the parameter \<open>connect\<close>.\<close>

definition isConnect :: "string \<Rightarrow> Props \<Rightarrow> bool" where
  "isConnect connect p = (appMethod p = Some connect)"

definition Input_value :: "Props \<Rightarrow> State \<Rightarrow> string" where
  "Input_value p s = effectiveURL p s"

definition Input_readOnly :: "State \<Rightarrow> bool" where
  "Input_readOnly s = (\<not> isURLOverridden s)"

definition Switch_checked :: "State \<Rightarrow> bool" where
  "Switch_checked s = isURLOverridden s"

definition Switch_disabled :: "State \<Rightarrow> bool" where
  "Switch_disabled s = isSyncing s"

text \<open>Line 187: \<^verbatim>\<open>{failure && !isSyncing && <SyncFailure error={failure} />}\<close>.\<close>

definition SyncFailure_shown :: "State \<Rightarrow> bool" where
  "SyncFailure_shown s = (failure s \<noteq> None \<and> \<not> isSyncing s)"

definition Cancel_disabled :: "State \<Rightarrow> bool" where
  "Cancel_disabled s = isSyncing s"

text \<open>Line 202: \<^verbatim>\<open>disabled={isSyncing || (!isURLOverridden && isConnect)}\<close>.\<close>

definition Sync_disabled :: "string \<Rightarrow> Props \<Rightarrow> State \<Rightarrow> bool" where
  "Sync_disabled connect p s = (isSyncing s \<or> (\<not> isURLOverridden s \<and> isConnect connect p))"

definition Sync_label :: "string \<Rightarrow> Props \<Rightarrow> string" where
  "Sync_label connect p = (if isConnect connect p then ''Migrate app'' else ''Resync app'')"

text \<open>Lines 116 and 170: the Vercel notice and the app-ID warning give way to a failure.\<close>

definition VercelAlert_shown :: "Props \<Rightarrow> State \<Rightarrow> bool" where
  "VercelAlert_shown p s = (platform p = Some ''vercel'' \<and> failure s = None)"

definition OverrideWarning_shown :: "State \<Rightarrow> bool" where
  "OverrideWarning_shown s = (isURLOverridden s \<and> failure s = None)"

subsection \<open>The callbacks handed to the presentation components\<close>

text \<open>Lines 151-153, 163-165, 194 and 107, 201.\<close>

definition Input_onChange :: "string \<Rightarrow> world \<Rightarrow> world" where
  "Input_onChange new_value = setOverrideValue (Value new_value)"

definition Switch_onCheckedChange :: "world \<Rightarrow> world" where
  "Switch_onCheckedChange = setURLOverridden (Updater (\<lambda>prev. \<not> prev))"

text \<open>A callback run by a control or by the modal shell, outside \<^verbatim>\<open>onSync\<close>: if it
  throws, the throw leaves the component, whose state is as the callback left it.\<close>

definition event_handler :: "(world \<Rightarrow> completion \<times> world) \<Rightarrow> world \<Rightarrow> world" where
  "event_handler handler w = snd (handler w)"

section \<open>The presentation components and the event loop\<close>

text \<open>
  Modelled from the spec: \<^verbatim>\<open>Button\<close>, \<^verbatim>\<open>Switch\<close> and \<^verbatim>\<open>Input\<close> come from
  \<^verbatim>\<open>@inngest/components\<close>, which is not among the sources. The spec consumes them as
  capability interfaces (``render + event callback''): a text input with a value, a
  change callback and a read-only flag, a toggle switch with a change callback and a
  disabled flag, buttons with a disabled flag; ``a user action attempted while syncing
  is simply inert (button disabled), not buffered'', and the read-only input is ``a
  UI-level enforcement of the invariant''. So a control calls its callback unless its
  flag is set.
\<close>

definition Button :: "bool \<Rightarrow> (world \<Rightarrow> world) \<Rightarrow> world \<Rightarrow> world" where
  "Button disabled onClick w = (if disabled then w else onClick w)"

definition Switch :: "bool \<Rightarrow> (world \<Rightarrow> world) \<Rightarrow> world \<Rightarrow> world" where
  "Switch disabled onCheckedChange w = (if disabled then w else onCheckedChange w)"

definition Input :: "bool \<Rightarrow> (string \<Rightarrow> world \<Rightarrow> world) \<Rightarrow> string \<Rightarrow> world \<Rightarrow> world" where
  "Input readOnly onChange new_value w = (if readOnly then w else onChange new_value w)"

text \<open>
  The spec's event loop: ``all state transitions happen on discrete event callbacks
  (button click, input change, toggle change)'', and \<^verbatim>\<open>onSync\<close> suspends at its one
  network call. An event is a user action on one of the rendered controls, the modal
  shell asking to close (line 107), or the awaited mutation settling.
\<close>

datatype event =
    TypeURL string
  | ToggleOverride
  | ClickCancel
  | ClickSync
  | DismissModal
  | Settle "OperationResult settled"

fun user_action :: "event \<Rightarrow> bool" where
  "user_action (Settle r) = False"
| "user_action e = True"

fun step :: "Callbacks \<Rightarrow> string \<Rightarrow> Environment \<Rightarrow> Props \<Rightarrow> event \<Rightarrow> world \<Rightarrow> world" where
  "step cb connect env p (TypeURL new_value) w =
     Input (Input_readOnly (st w)) Input_onChange new_value w"
| "step cb connect env p ToggleOverride w =
     Switch (Switch_disabled (st w)) Switch_onCheckedChange w"
| "step cb connect env p ClickCancel w =
     Button (Cancel_disabled (st w)) (event_handler (onClose cb)) w"
| "step cb connect env p ClickSync w =
     Button (Sync_disabled connect p (st w)) (onSync_begin env p) w"
| "step cb connect env p DismissModal w = event_handler (onClose cb) w"
| "step cb connect env p (Settle r) w =
     (if awaiting w = 0 then w else onSync_resume cb r (w\<lparr>awaiting := awaiting w - 1\<rparr>))"

fun run ::
  "Callbacks \<Rightarrow> string \<Rightarrow> Environment \<Rightarrow> Props \<Rightarrow> event list \<Rightarrow> world \<Rightarrow> world"
where
  "run cb connect env p [] w = w"
| "run cb connect env p (e # es) w = run cb connect env p es (step cb connect env p e w)"

text \<open>The mutations issued so far, and what a step has emitted.\<close>

fun is_ResyncApp :: "effect \<Rightarrow> bool" where
  "is_ResyncApp (ResyncApp v ts) = True"
| "is_ResyncApp e = False"

definition requests :: "world \<Rightarrow> effect list" where
  "requests w = filter is_ResyncApp (effects w)"

definition emitted_since :: "world \<Rightarrow> world \<Rightarrow> effect list" where
  "emitted_since w w' = drop (length (effects w)) (effects w')"

subsection \<open>Calls of the two override setters\<close>

text \<open>The spec's \<^verbatim>\<open>setOverrideEnabled\<close> and \<^verbatim>\<open>setOverrideValue\<close> are the setters
  \<^verbatim>\<open>setURLOverridden\<close> and \<^verbatim>\<open>setOverrideValue\<close> of lines 50-51, called with any
  value or updater and with no regard to what the controls allow.\<close>

datatype setter_call =
    Call_setURLOverridden "bool SetStateAction"
  | Call_setOverrideValue "string SetStateAction"

fun call :: "setter_call \<Rightarrow> world \<Rightarrow> world" where
  "call (Call_setURLOverridden a) w = setURLOverridden a w"
| "call (Call_setOverrideValue a) w = setOverrideValue a w"

fun calls :: "setter_call list \<Rightarrow> world \<Rightarrow> world" where
  "calls [] w = w"
| "calls (c # cs) w = calls cs (call c w)"

subsection \<open>The scenarios of the spec, as inputs\<close>

abbreviation returning :: Callbacks where
  "returning \<equiv> \<lparr>toast_behaviour = Returns, onClose_behaviour = Returns\<rparr>"

abbreviation onClose_throwing :: Callbacks where
  "onClose_throwing \<equiv>
     \<lparr>toast_behaviour = Returns, onClose_behaviour = Throws (ThrownError ''host failed'')\<rparr>"

abbreviation scenario_env :: Environment where
  "scenario_env \<equiv> \<lparr>env_id = ''5d2b1a0c-7e1f-4c69-9a57-3f0e2c8d4b11''\<rparr>"

abbreviation scenario_props :: Props where
  "scenario_props \<equiv>
     \<lparr>appExternalID = ''my-app'', isOpen = True, url = ''https://a.com/api/inngest'',
      platform = None, appMethod = Some ''serve''\<rparr>"

abbreviation connect_props :: Props where
  "connect_props \<equiv>
     \<lparr>appExternalID = ''my-app'', isOpen = True, url = ''https://a.com/api/inngest'',
      platform = None, appMethod = Some ''connect''\<rparr>"

abbreviation invalid_url :: CodedError where
  "invalid_url \<equiv> \<lparr>code = ''invalid_url'', data = None, message = Some ''bad host''\<rparr>"

abbreviation unknown_failure :: CodedError where
  "unknown_failure \<equiv> \<lparr>code = ''unknown'', data = None, message = None\<rparr>"

section \<open>Auxiliary facts\<close>

lemmas setter_defs =
  setOverrideValue_def setURLOverridden_def setFailure_def setIsSyncing_def emit_def

lemmas onSync_defs =
  onSync_resume_def onSync_finally_def onSync_catch_def onSync_try_def and_then_def
  toast_success_def onClose_def call_callback_def

lemmas control_defs =
  Button_def Switch_def Input_def Input_readOnly_def Switch_disabled_def Cancel_disabled_def
  Sync_disabled_def Input_onChange_def Switch_onCheckedChange_def onClose_def
  toast_success_def call_callback_def event_handler_def

lemmas scenario_defs =
  control_defs setter_defs mount_def useState_initial_def onSync_begin_def isConnect_def
  requests_def onSync_variables_def effectiveURL_def

subsection \<open>The ways through onSync after the await\<close>

lemma onSync_resume_Rejected:
  "onSync_resume cb (Rejected e) w =
     setIsSyncing (Value False) (setFailure (Value (Some unknown_failure)) w)"
  by (simp add: onSync_defs)

lemma onSync_resume_res_error:
  "res_error res = Some ce \<Longrightarrow>
   onSync_resume cb (Fulfilled res) w =
     setIsSyncing (Value False) (setFailure (Value (Some unknown_failure)) w)"
  by (simp add: onSync_defs)

lemma onSync_resume_no_data:
  "res_error res = None \<Longrightarrow> res_data res = None \<Longrightarrow>
   onSync_resume cb (Fulfilled res) w =
     setIsSyncing (Value False) (setFailure (Value (Some unknown_failure)) w)"
  by (simp add: onSync_defs)

lemma onSync_resume_app_error:
  "res_error res = None \<Longrightarrow> res_data res = Some d \<Longrightarrow> error (resyncApp d) = Some err \<Longrightarrow>
   onSync_resume cb (Fulfilled res) w =
     setIsSyncing (Value False) (setFailure (Value (Some err)) w)"
  by (simp add: onSync_defs)

lemma onSync_resume_success:
  "res_error res = None \<Longrightarrow> res_data res = Some d \<Longrightarrow> error (resyncApp d) = None \<Longrightarrow>
   toast_behaviour cb = Returns \<Longrightarrow> onClose_behaviour cb = Returns \<Longrightarrow>
   onSync_resume cb (Fulfilled res) w =
     setIsSyncing (Value False)
       (emit OnClose (emit (ToastSuccess ''Synced app'') (setFailure (Value None) w)))"
  by (simp add: onSync_defs)

lemma onSync_resume_toast_throws:
  "res_error res = None \<Longrightarrow> res_data res = Some d \<Longrightarrow> error (resyncApp d) = None \<Longrightarrow>
   toast_behaviour cb = Throws x \<Longrightarrow>
   onSync_resume cb (Fulfilled res) w =
     setIsSyncing (Value False)
       (setFailure (Value (Some unknown_failure))
          (emit (ToastSuccess ''Synced app'') (setFailure (Value None) w)))"
  by (simp add: onSync_defs)

lemma onSync_resume_onClose_throws:
  "res_error res = None \<Longrightarrow> res_data res = Some d \<Longrightarrow> error (resyncApp d) = None \<Longrightarrow>
   toast_behaviour cb = Returns \<Longrightarrow> onClose_behaviour cb = Throws x \<Longrightarrow>
   onSync_resume cb (Fulfilled res) w =
     setIsSyncing (Value False)
       (setFailure (Value (Some unknown_failure))
          (emit OnClose (emit (ToastSuccess ''Synced app'') (setFailure (Value None) w))))"
  by (simp add: onSync_defs)

lemma onSync_finally_clears_isSyncing:
  "\<not> isSyncing (st (snd (onSync_finally (c, w))))"
  by (simp add: onSync_finally_def setIsSyncing_def)

lemma onSync_resume_clears_isSyncing:
  "\<not> isSyncing (st (onSync_resume cb r w))"
  unfolding onSync_resume_def
  by (cases "onSync_catch (onSync_try cb r w)") (simp add: onSync_finally_clears_isSyncing)

lemma emitted_since_same [simp]:
  "effects w' = effects w \<Longrightarrow> emitted_since w w' = []"
  by (simp add: emitted_since_def)

lemma emitted_since_append [simp]:
  "effects w' = effects w @ es \<Longrightarrow> emitted_since w w' = es"
  by (simp add: emitted_since_def)

text \<open>If \<^verbatim>\<open>onClose\<close> returns when called, the handler ends with a failure stored or
  with the close signal given, and not with both.\<close>

lemma onSync_resume_failure_xor_close:
  assumes "onClose_behaviour cb = Returns"
  shows "(failure (st (onSync_resume cb r w)) \<noteq> None) \<noteq>
         (OnClose \<in> set (emitted_since w (onSync_resume cb r w)))"
proof (cases r)
  case (Rejected e)
  then show ?thesis by (simp add: onSync_resume_Rejected setter_defs)
next
  case (Fulfilled res)
  show ?thesis
  proof (cases "res_error res")
    case (Some ce)
    with Fulfilled show ?thesis by (simp add: onSync_resume_res_error setter_defs)
  next
    case None
    note no_error = this
    show ?thesis
    proof (cases "res_data res")
      case None
      with Fulfilled no_error show ?thesis by (simp add: onSync_resume_no_data setter_defs)
    next
      case (Some d)
      note has_data = this
      show ?thesis
      proof (cases "error (resyncApp d)")
        case (Some err)
        with Fulfilled no_error has_data show ?thesis
          by (simp add: onSync_resume_app_error setter_defs)
      next
        case None
        note no_app_error = this
        show ?thesis
        proof (cases "toast_behaviour cb")
          case Returns
          with Fulfilled no_error has_data no_app_error assms show ?thesis
            by (simp add: onSync_resume_success setter_defs)
        next
          case (Throws x)
          with Fulfilled no_error has_data no_app_error show ?thesis
            by (simp add: onSync_resume_toast_throws setter_defs)
        qed
      qed
    qed
  qed
qed

subsection \<open>User actions while a resync is in flight\<close>

lemma step_user_action_while_syncing:
  assumes "isSyncing (st w)" and "user_action e"
  shows "isSyncing (st (step cb connect env p e w)) \<and>
         isURLOverridden (st (step cb connect env p e w)) = isURLOverridden (st w) \<and>
         failure (st (step cb connect env p e w)) = failure (st w) \<and>
         requests (step cb connect env p e w) = requests w \<and>
         awaiting (step cb connect env p e w) = awaiting w"
  using assms
  by (cases e) (simp_all add: control_defs setter_defs requests_def split: callback.split)

lemma run_user_actions_while_syncing:
  assumes "isSyncing (st w)" and "\<forall>e \<in> set es. user_action e"
  shows "isSyncing (st (run cb connect env p es w)) \<and>
         isURLOverridden (st (run cb connect env p es w)) = isURLOverridden (st w) \<and>
         failure (st (run cb connect env p es w)) = failure (st w) \<and>
         requests (run cb connect env p es w) = requests w \<and>
         awaiting (run cb connect env p es w) = awaiting w"
  using assms
proof (induction es arbitrary: w)
  case Nil
  then show ?case by simp
next
  case (Cons e es)
  from Cons.prems have e: "user_action e" and es: "\<forall>x \<in> set es. user_action x"
    by simp_all
  note one = step_user_action_while_syncing [OF Cons.prems(1) e, of cb connect env p]
  from one have "isSyncing (st (step cb connect env p e w))" by simp
  from Cons.IH [OF this es] one show ?case by simp
qed

section \<open>The request that is sent\<close>

text \<open>
  C1, as stated, fails: with no override enabled the request does not carry a null
  \<^verbatim>\<open>appURL\<close>. Line 69 sends the variable \<^verbatim>\<open>url\<close>, which is the prop when
  lines 58-60 did not replace it. In the freshly mounted modal of scenario A, with the
  override off, the one mutation issued carries the original URL.
\<close>

theorem appURL_null_without_override_counterexample:
  "\<not> isURLOverridden (st (mount scenario_props)) \<and>
   appURL (onSync_variables scenario_env scenario_props (st (mount scenario_props))) \<noteq> None \<and>
   effects (onSync_begin scenario_env scenario_props (mount scenario_props)) =
     [ResyncApp \<lparr>var_appExternalID = ''my-app'', appURL = Some ''https://a.com/api/inngest'',
                 envID = ''5d2b1a0c-7e1f-4c69-9a57-3f0e2c8d4b11''\<rparr> [''Workflow'']]"
  by (simp add: mount_def useState_initial_def onSync_begin_def onSync_variables_def
      effectiveURL_def setter_defs)

text \<open>
  C1, amended: every call of \<^verbatim>\<open>onSync\<close> issues exactly one mutation before it
  suspends, for the app's external ID and the environment's ID, tagged \<^verbatim>\<open>Workflow\<close>;
  its \<^verbatim>\<open>appURL\<close> is never null: it is the override buffer when the override is
  enabled and the original URL when it is not.
\<close>

theorem appURL_is_effective_url:
  "emitted_since w (onSync_begin env p w) =
     [ResyncApp (onSync_variables env p (st w)) [''Workflow'']] \<and>
   var_appExternalID (onSync_variables env p (st w)) = appExternalID p \<and>
   envID (onSync_variables env p (st w)) = env_id env \<and>
   appURL (onSync_variables env p (st w)) =
     Some (if isURLOverridden (st w) then overrideValue (st w) else url p)"
  by (simp add: onSync_begin_def onSync_variables_def effectiveURL_def setter_defs Let_def)

section \<open>The effective URL\<close>

text \<open>
  C2, as stated, fails in the ``only if'' direction: the override buffer is seeded with
  the original URL (line 50), so before any setter is called the effective URL equals
  the buffer although overriding is off.
\<close>

theorem effectiveURL_iff_counterexample:
  "\<not> (effectiveURL scenario_props (st (calls [] (mount scenario_props))) =
        overrideValue (st (calls [] (mount scenario_props)))
      \<longleftrightarrow> isURLOverridden (st (calls [] (mount scenario_props))))"
  by (simp add: mount_def useState_initial_def effectiveURL_def)

text \<open>
  C2, amended: after any sequence of calls of the two setters, the effective URL is the
  override buffer if overriding is enabled and the original URL otherwise; it equals
  the buffer exactly when overriding is enabled or the buffer holds the original URL.
  The two sources do not diverge silently: the input field shows the effective URL
  (line 150) and a resync sends it (line 69).
\<close>

theorem effectiveURL_follows_override:
  "effectiveURL p (st (calls cs (mount p))) =
     (if isURLOverridden (st (calls cs (mount p)))
      then overrideValue (st (calls cs (mount p))) else url p) \<and>
   (effectiveURL p (st (calls cs (mount p))) = overrideValue (st (calls cs (mount p)))
      \<longleftrightarrow> isURLOverridden (st (calls cs (mount p))) \<or>
          overrideValue (st (calls cs (mount p))) = url p) \<and>
   Input_value p (st (calls cs (mount p))) = effectiveURL p (st (calls cs (mount p))) \<and>
   appURL (onSync_variables env p (st (calls cs (mount p)))) =
     Some (effectiveURL p (st (calls cs (mount p))))"
  by (auto simp add: effectiveURL_def Input_value_def onSync_variables_def)

section \<open>The three outcomes of onSync\<close>

text \<open>
  C3: when the awaited mutation rejects, or resolves with a transport error
  (\<^verbatim>\<open>res.error\<close>), or resolves with no \<^verbatim>\<open>res.data\<close>, the handler stores the failure
  \<^verbatim>\<open>{ code: 'unknown' }\<close> and emits nothing, so no close signal; no callback is called
  on these paths.
\<close>

theorem transport_failure_sets_unknown:
  assumes "r = Rejected e \<or>
           r = Fulfilled res \<and> (res_error res \<noteq> None \<or> res_data res = None)"
  shows "failure (st (onSync_resume cb r w)) =
           Some \<lparr>code = ''unknown'', data = None, message = None\<rparr> \<and>
         emitted_since w (onSync_resume cb r w) = [] \<and>
         OnClose \<notin> set (emitted_since w (onSync_resume cb r w))"
proof -
  have "onSync_resume cb r w =
          setIsSyncing (Value False) (setFailure (Value (Some unknown_failure)) w)"
  proof (cases r)
    case (Rejected x)
    then show ?thesis by (simp add: onSync_resume_Rejected)
  next
    case (Fulfilled x)
    with assms have res: "x = res" and bad: "res_error res \<noteq> None \<or> res_data res = None"
      by simp_all
    show ?thesis
    proof (cases "res_error res")
      case None
      with bad have "res_data res = None" by simp
      with None Fulfilled res show ?thesis by (simp add: onSync_resume_no_data)
    next
      case (Some ce)
      with Fulfilled res show ?thesis by (simp add: onSync_resume_res_error)
    qed
  qed
  then show ?thesis by (simp add: setter_defs)
qed

text \<open>Scenario C with a response that has neither an error nor data.\<close>

theorem transport_failure_sets_unknown_witness:
  "failure (st (onSync_resume returning (Fulfilled \<lparr>res_data = None, res_error = None\<rparr>)
       (onSync_begin scenario_env scenario_props (mount scenario_props)))) =
     Some \<lparr>code = ''unknown'', data = None, message = None\<rparr> \<and>
   emitted_since (onSync_begin scenario_env scenario_props (mount scenario_props))
     (onSync_resume returning (Fulfilled \<lparr>res_data = None, res_error = None\<rparr>)
       (onSync_begin scenario_env scenario_props (mount scenario_props))) = []"
  using transport_failure_sets_unknown
    [where r = "Fulfilled \<lparr>res_data = None, res_error = None\<rparr>"
       and e = "ThrownOther JNull"
       and res = "\<lparr>res_data = None, res_error = None\<rparr>"
       and cb = returning
       and w = "onSync_begin scenario_env scenario_props (mount scenario_props)"]
  by simp

text \<open>
  C4, as stated, fails: \<^verbatim>\<open>onClose()\<close> is called inside the \<^verbatim>\<open>try\<close> block (line 94),
  so when the response is a success and the host's \<^verbatim>\<open>onClose\<close> throws, the close signal
  has been given and the \<^verbatim>\<open>catch\<close> clause stores \<^verbatim>\<open>{ code: 'unknown' }\<close> all the same:
  both a failure and a close signal. Here on the response of scenario A.
\<close>

theorem failure_and_close_counterexample:
  "failure (st (onSync_resume onClose_throwing
       (Fulfilled \<lparr>res_data = Some \<lparr>resyncApp = \<lparr>app = Some ''1'', error = None\<rparr>\<rparr>,
                   res_error = None\<rparr>)
       (onSync_begin scenario_env scenario_props (mount scenario_props)))) =
     Some \<lparr>code = ''unknown'', data = None, message = None\<rparr> \<and>
   OnClose \<in> set (emitted_since (onSync_begin scenario_env scenario_props (mount scenario_props))
     (onSync_resume onClose_throwing
       (Fulfilled \<lparr>res_data = Some \<lparr>resyncApp = \<lparr>app = Some ''1'', error = None\<rparr>\<rparr>,
                   res_error = None\<rparr>)
       (onSync_begin scenario_env scenario_props (mount scenario_props))))"
  by (simp add: onSync_resume_onClose_throws setter_defs onSync_begin_def Let_def)

text \<open>
  C4, amended: when the mutation resolves with data, no transport error and no
  application-level error, and the calls of \<^verbatim>\<open>toast.success\<close> and \<^verbatim>\<open>onClose\<close> return,
  the handler clears the failure and emits the success toast and then the close signal,
  and nothing else. And however the promise settles, if \<^verbatim>\<open>onClose\<close> returns when
  called, then once the handler has settled exactly one of the two holds: a failure is
  stored, or this call has given the close signal.
\<close>

theorem success_closes_and_failure_xor_close:
  "(r = Fulfilled res \<and> res_error res = None \<and> res_data res = Some d \<and>
      error (resyncApp d) = None \<and>
      toast_behaviour cb = Returns \<and> onClose_behaviour cb = Returns \<longrightarrow>
      failure (st (onSync_resume cb r w)) = None \<and>
      emitted_since w (onSync_resume cb r w) = [ToastSuccess ''Synced app'', OnClose]) \<and>
   (onClose_behaviour cb = Returns \<longrightarrow>
      (failure (st (onSync_resume cb r w)) \<noteq> None) \<noteq>
      (OnClose \<in> set (emitted_since w (onSync_resume cb r w))))"
proof (intro conjI impI)
  assume "r = Fulfilled res \<and> res_error res = None \<and> res_data res = Some d \<and>
      error (resyncApp d) = None \<and>
      toast_behaviour cb = Returns \<and> onClose_behaviour cb = Returns"
  then have ends: "onSync_resume cb r w =
      setIsSyncing (Value False)
        (emit OnClose (emit (ToastSuccess ''Synced app'') (setFailure (Value None) w)))"
    by (simp add: onSync_resume_success)
  from ends show "failure (st (onSync_resume cb r w)) = None"
    by (simp add: setter_defs)
  from ends show "emitted_since w (onSync_resume cb r w) = [ToastSuccess ''Synced app'', OnClose]"
    by (simp add: setter_defs)
next
  assume "onClose_behaviour cb = Returns"
  then show "(failure (st (onSync_resume cb r w)) \<noteq> None) \<noteq>
      (OnClose \<in> set (emitted_since w (onSync_resume cb r w)))"
    by (rule onSync_resume_failure_xor_close)
qed

text \<open>Scenario A: the response \<^verbatim>\<open>{app: {id: "1"}}\<close>, with callbacks that return.\<close>

theorem success_closes_and_failure_xor_close_witness:
  "failure (st (onSync_resume returning
       (Fulfilled \<lparr>res_data = Some \<lparr>resyncApp = \<lparr>app = Some ''1'', error = None\<rparr>\<rparr>,
                   res_error = None\<rparr>)
       (onSync_begin scenario_env scenario_props (mount scenario_props)))) = None \<and>
   emitted_since (onSync_begin scenario_env scenario_props (mount scenario_props))
     (onSync_resume returning
       (Fulfilled \<lparr>res_data = Some \<lparr>resyncApp = \<lparr>app = Some ''1'', error = None\<rparr>\<rparr>,
                   res_error = None\<rparr>)
       (onSync_begin scenario_env scenario_props (mount scenario_props))) =
     [ToastSuccess ''Synced app'', OnClose] \<and>
   OnClose \<in> set (emitted_since (onSync_begin scenario_env scenario_props (mount scenario_props))
     (onSync_resume returning
       (Fulfilled \<lparr>res_data = Some \<lparr>resyncApp = \<lparr>app = Some ''1'', error = None\<rparr>\<rparr>,
                   res_error = None\<rparr>)
       (onSync_begin scenario_env scenario_props (mount scenario_props))))"
  using success_closes_and_failure_xor_close
    [where r = "Fulfilled \<lparr>res_data = Some \<lparr>resyncApp = \<lparr>app = Some ''1'', error = None\<rparr>\<rparr>,
                     res_error = None\<rparr>"
       and res = "\<lparr>res_data = Some \<lparr>resyncApp = \<lparr>app = Some ''1'', error = None\<rparr>\<rparr>,
          res_error = None\<rparr>"
       and d = "\<lparr>resyncApp = \<lparr>app = Some ''1'', error = None\<rparr>\<rparr>"
       and cb = returning
       and w = "onSync_begin scenario_env scenario_props (mount scenario_props)"]
  by simp

text \<open>
  C5: when the mutation resolves with data, no transport error, and an application-level
  error object in \<^verbatim>\<open>data.resyncApp.error\<close>, the handler stores that very object as the
  failure, emits nothing (no close signal, so the modal stays open) and lowers
  \<^verbatim>\<open>isSyncing\<close>.
\<close>

theorem application_error_stored_verbatim:
  assumes "r = Fulfilled res" and "res_error res = None" and "res_data res = Some d"
    and "error (resyncApp d) = Some err"
  shows "failure (st (onSync_resume cb r w)) = Some err \<and>
         emitted_since w (onSync_resume cb r w) = [] \<and>
         OnClose \<notin> set (emitted_since w (onSync_resume cb r w)) \<and>
         \<not> isSyncing (st (onSync_resume cb r w))"
  using assms by (simp add: onSync_resume_app_error setter_defs)

text \<open>Scenario B, from opening the modal to the settling of the call.\<close>

theorem application_error_stored_verbatim_witness:
  "failure (st (run returning ''connect'' scenario_env scenario_props
      [ToggleOverride, TypeURL ''https://b.com/x'', ClickSync,
       Settle (Fulfilled \<lparr>res_data = Some \<lparr>resyncApp = \<lparr>app = None, error = Some invalid_url\<rparr>\<rparr>,
                          res_error = None\<rparr>)]
      (mount scenario_props))) =
   Some \<lparr>code = ''invalid_url'', data = None, message = Some ''bad host''\<rparr>"
  using application_error_stored_verbatim
    [where r = "Fulfilled \<lparr>res_data = Some \<lparr>resyncApp = \<lparr>app = None, error = Some invalid_url\<rparr>\<rparr>,
                     res_error = None\<rparr>"
       and res = "\<lparr>res_data = Some \<lparr>resyncApp = \<lparr>app = None, error = Some invalid_url\<rparr>\<rparr>,
          res_error = None\<rparr>"
       and d = "\<lparr>resyncApp = \<lparr>app = None, error = Some invalid_url\<rparr>\<rparr>"
       and err = invalid_url
       and cb = returning
       and w = "(run returning ''connect'' scenario_env scenario_props
            [ToggleOverride, TypeURL ''https://b.com/x'', ClickSync] (mount scenario_props))
         \<lparr>awaiting := 0\<rparr>"]
  by (simp add: control_defs setter_defs mount_def useState_initial_def onSync_begin_def
      isConnect_def)

text \<open>
  C6: \<^verbatim>\<open>isSyncing\<close> is false when \<^verbatim>\<open>onSync\<close> settles, on every path: however the
  \<^verbatim>\<open>try\<close> and \<^verbatim>\<open>catch\<close> blocks completed (normally, by \<^verbatim>\<open>return\<close> or by a throw),
  whatever the awaited promise settled with and whether the toast and \<^verbatim>\<open>onClose\<close>
  return or throw, and for a whole call against any remote operation.
\<close>

theorem onSync_always_clears_isSyncing:
  "\<not> isSyncing (st (snd (onSync_finally (c, w)))) \<and>
   \<not> isSyncing (st (onSync_resume cb r w)) \<and>
   \<not> isSyncing (st (onSync cb remote env p w))"
  by (simp add: onSync_def Let_def onSync_finally_clears_isSyncing
      onSync_resume_clears_isSyncing)

section \<open>What the controls allow\<close>

text \<open>
  C7: when the app's method is the connect method and the override is off, the sync
  button is rendered disabled, whatever \<^verbatim>\<open>isSyncing\<close> and the rest of the state are.
\<close>

theorem connect_without_override_disables_sync:
  assumes "isConnect connect p" and "\<not> isURLOverridden s"
  shows "Sync_disabled connect p s"
  using assms by (simp add: Sync_disabled_def)

text \<open>Scenario D, with nothing in flight.\<close>

theorem connect_without_override_disables_sync_witness:
  "isConnect ''connect'' connect_props \<and>
   \<not> isURLOverridden (useState_initial connect_props) \<and>
   \<not> isSyncing (useState_initial connect_props) \<and>
   Sync_disabled ''connect'' connect_props (useState_initial connect_props)"
  using connect_without_override_disables_sync
    [of "''connect''" connect_props "useState_initial connect_props"]
  by (simp add: isConnect_def useState_initial_def)

text \<open>
  C8: while \<^verbatim>\<open>isSyncing\<close> is true the sync button is rendered disabled, a click on it
  changes nothing, and no sequence of user actions issues a further mutation or ends
  the in-flight state: that takes the settling of the awaited call.
\<close>

theorem sync_click_inert_while_syncing:
  assumes "isSyncing (st w)" and "\<forall>e \<in> set es. user_action e"
  shows "Sync_disabled connect p (st w) \<and>
         step cb connect env p ClickSync w = w \<and>
         requests (run cb connect env p es w) = requests w \<and>
         awaiting (run cb connect env p es w) = awaiting w \<and>
         isSyncing (st (run cb connect env p es w))"
  using assms run_user_actions_while_syncing [OF assms, of cb connect env p]
  by (simp add: Sync_disabled_def Button_def)

text \<open>After one click on the sync button, further clicks and other actions leave the
  one mutation the only one issued.\<close>

theorem sync_click_inert_while_syncing_witness:
  "isSyncing (st (step returning ''connect'' scenario_env scenario_props ClickSync (mount scenario_props))) \<and>
   requests (run returning ''connect'' scenario_env scenario_props
      [ClickSync, ToggleOverride, ClickSync, ClickCancel]
      (step returning ''connect'' scenario_env scenario_props ClickSync (mount scenario_props))) =
     [ResyncApp \<lparr>var_appExternalID = ''my-app'', appURL = Some ''https://a.com/api/inngest'',
                 envID = ''5d2b1a0c-7e1f-4c69-9a57-3f0e2c8d4b11''\<rparr> [''Workflow'']]"
  using sync_click_inert_while_syncing
    [where w = "step returning ''connect'' scenario_env scenario_props ClickSync (mount scenario_props)"
       and es = "[ClickSync, ToggleOverride, ClickSync, ClickCancel]"
       and cb = returning and connect = "''connect''" and env = scenario_env and p = scenario_props]
  by (simp add: scenario_defs)

text \<open>
  C9: the failure detail is rendered exactly when a failure is stored and \<^verbatim>\<open>isSyncing\<close>
  is false, so in no state are the in-flight flag and the failure display both on.
\<close>

theorem failure_never_shown_while_syncing:
  "SyncFailure_shown s = (failure s \<noteq> None \<and> \<not> isSyncing s) \<and>
   \<not> (isSyncing s \<and> SyncFailure_shown s)"
  by (simp add: SyncFailure_shown_def)

text \<open>
  C10: while \<^verbatim>\<open>isSyncing\<close> is true the override switch is rendered disabled, a toggle
  changes nothing, and over any sequence of user actions \<^verbatim>\<open>isURLOverridden\<close> keeps its
  value, so the effective URL keeps its source: the override buffer if the override was
  on, the original URL if it was off.
\<close>

theorem override_source_fixed_while_syncing:
  assumes "isSyncing (st w)" and "\<forall>e \<in> set es. user_action e"
  shows "Switch_disabled (st w) \<and>
         step cb connect env p ToggleOverride w = w \<and>
         isURLOverridden (st (run cb connect env p es w)) = isURLOverridden (st w) \<and>
         effectiveURL p (st (run cb connect env p es w)) =
           (if isURLOverridden (st w) then overrideValue (st (run cb connect env p es w)) else url p)"
  using assms run_user_actions_while_syncing [OF assms, of cb connect env p]
  by (simp add: Switch_disabled_def Switch_def effectiveURL_def)

text \<open>With a resync in flight and the override off, toggling and typing leave the
  override off and the effective URL the original one.\<close>

theorem override_source_fixed_while_syncing_witness:
  "isSyncing (st (step returning ''connect'' scenario_env scenario_props ClickSync (mount scenario_props))) \<and>
   \<not> isURLOverridden (st (run returning ''connect'' scenario_env scenario_props
      [ToggleOverride, TypeURL ''https://b.com/x'', ToggleOverride]
      (step returning ''connect'' scenario_env scenario_props ClickSync (mount scenario_props)))) \<and>
   effectiveURL scenario_props (st (run returning ''connect'' scenario_env scenario_props
      [ToggleOverride, TypeURL ''https://b.com/x'', ToggleOverride]
      (step returning ''connect'' scenario_env scenario_props ClickSync (mount scenario_props)))) =
     ''https://a.com/api/inngest''"
  using override_source_fixed_while_syncing
    [where w = "step returning ''connect'' scenario_env scenario_props ClickSync (mount scenario_props)"
       and es = "[ToggleOverride, TypeURL ''https://b.com/x'', ToggleOverride]"
       and cb = returning and connect = "''connect''" and env = scenario_env and p = scenario_props]
  by (simp add: scenario_defs)

end
